theory Spec2Isabelle
  imports Complex_Main "HOL-Library.Word"
begin

section \<open>Values\<close>

text \<open>
  A Python \<open>str\<close> is a sequence of Unicode code points and \<open>len\<close> counts code points,
  so a string is a list of natural numbers. \<open>lit\<close> embeds the ASCII literals of the source.
\<close>

type_synonym pystr = "nat list"

definition lit :: "string \<Rightarrow> pystr" where
  "lit s = map of_char s"

text \<open>
  What \<open>response.json()\<close> can return. A Python \<open>float\<close> is an IEEE-754 binary64 value and
  is kept as its 64 bits (no arithmetic is done on floats in the modelled code). A \<open>dict\<close>
  keeps insertion order, so it is an association list; the dictionary methods below look a
  key up with \<open>map_of\<close>.
\<close>

datatype json =
    JNull
  | JBool bool
  | JInt int
  | JFloat "64 word"
  | JStr pystr
  | JArr "json list"
  | JObj "(pystr \<times> json) list"

type_synonym dict = "(pystr \<times> json) list"

text \<open>\<open>d.get(k, default)\<close> and \<open>d.get(k)\<close> (whose default is \<open>None\<close>).\<close>

definition dict_get_or :: "dict \<Rightarrow> pystr \<Rightarrow> json \<Rightarrow> json" where
  "dict_get_or d k dflt = (case map_of d k of None \<Rightarrow> dflt | Some v \<Rightarrow> v)"

definition dict_get :: "dict \<Rightarrow> pystr \<Rightarrow> json" where
  "dict_get d k = dict_get_or d k JNull"

text \<open>\<open>d[k] = v\<close>: replaces the value of an existing key in place, appends a new key.\<close>

fun dict_set :: "dict \<Rightarrow> pystr \<Rightarrow> json \<Rightarrow> dict" where
  "dict_set [] k v = [(k, v)]"
| "dict_set ((k', v') # d) k v = (if k' = k then (k, v) # d else (k', v') # dict_set d k v)"

text \<open>
  Truth value testing (\<open>if x\<close>, \<open>x and y\<close>, \<open>x or y\<close>): \<open>None\<close>, \<open>False\<close>, zero of any
  numeric type (for floats \<open>0.0\<close> and \<open>-0.0\<close>) and empty strings and containers are false.
\<close>

fun truthy :: "json \<Rightarrow> bool" where
  "truthy JNull = False"
| "truthy (JBool b) = b"
| "truthy (JInt n) = (n \<noteq> 0)"
| "truthy (JFloat w) = (w \<noteq> 0 \<and> w \<noteq> 0x8000000000000000)"
| "truthy (JStr s) = (s \<noteq> [])"
| "truthy (JArr xs) = (xs \<noteq> [])"
| "truthy (JObj kvs) = (kvs \<noteq> [])"

text \<open>\<open>x or y\<close> yields \<open>x\<close> when it is true and \<open>y\<close> otherwise.\<close>

definition py_or :: "json \<Rightarrow> json \<Rightarrow> json" where
  "py_or x y = (if truthy x then x else y)"

text \<open>
  \<open>x == 2\<close> against the integer literal 2. Python compares numbers by value across
  \<open>int\<close>, \<open>float\<close> and \<open>bool\<close>: the only float equal to 2 is \<open>2.0\<close>, whose bits are
  \<open>0x4000000000000000\<close>; \<open>True\<close> is 1 and \<open>False\<close> is 0; values of other types are unequal.
\<close>

fun eq_int_2 :: "json \<Rightarrow> bool" where
  "eq_int_2 (JInt n) = (n = 2)"
| "eq_int_2 (JFloat w) = (w = 0x4000000000000000)"
| "eq_int_2 _ = False"

text \<open>
  The float literals of the source as binary64 bit patterns:
  \<open>0.0\<close>, \<open>40.7032\<close> and \<open>-74.1468\<close>.
\<close>

definition float_0_0 :: "64 word" where
  "float_0_0 = 0"

definition float_40_7032 :: "64 word" where
  "float_40_7032 = 0x40445a027525460b"

definition float_neg_74_1468 :: "64 word" where
  "float_neg_74_1468 = 0xc05289652bd3c361"

text \<open>
  String conversion inside an f-string, \<open>f"{v}"\<close>. A \<open>str\<close> is inserted as it is. For the
  other values the text is produced by Python's built-in \<open>str\<close>, which is not code of the
  repository and is taken as the parameter \<open>builtin_str\<close>.
\<close>

definition py_format :: "(json \<Rightarrow> pystr) \<Rightarrow> json \<Rightarrow> pystr" where
  "py_format builtin_str v = (case v of JStr s \<Rightarrow> s | _ \<Rightarrow> builtin_str v)"

section \<open>Projection: \<open>_extract_data_by_intent\<close>\<close>

text \<open>The nested helper \<open>_has_holds\<close> (pnct_activities.py, lines 71-85).\<close>

definition has_holds :: "(json \<Rightarrow> pystr) \<Rightarrow> dict \<Rightarrow> bool \<times> pystr list" where
  "has_holds builtin_str data =
    (let holds = [];
         holds = (if dict_get data (lit ''CarrierReleaseStatus'') = JStr (lit ''HOLD'')
                  then holds @ [lit ''Carrier Hold''] else holds);
         holds = (if dict_get data (lit ''CustomReleaseStatus'') \<noteq> JStr (lit ''RELEASED'')
                  then holds @ [lit ''Customs Hold''] else holds);
         holds = (if dict_get data (lit ''UsdaStatus'') \<noteq> JStr (lit ''RELEASED'')
                  then holds @ [lit ''USDA Hold''] else holds);
         holds = (if truthy (dict_get data (lit ''YardReleaseStatus''))
                     \<and> dict_get data (lit ''YardReleaseStatus'') \<noteq> JStr (lit ''RELEASED'')
                  then holds @ [lit ''Yard Hold''] else holds);
         holds = (if truthy (dict_get data (lit ''MiscHoldStatus''))
                  then holds @ [lit ''Misc Hold: ''
                                  @ py_format builtin_str (dict_get data (lit ''MiscHoldStatus''))]
                  else holds);
         holds = (if truthy (dict_get data (lit ''IsTerminalHold''))
                  then holds @ [lit ''Terminal Hold''] else holds)
     in (length holds > 0, holds))"

text \<open>
  \<open>datetime.utcnow().isoformat() + "Z"\<close>, where \<open>now i\<close> is what the \<open>i\<close>-th call of
  \<open>datetime.utcnow().isoformat()\<close> made by one projection returns.
\<close>

definition stamp :: "(nat \<Rightarrow> pystr) \<Rightarrow> nat \<Rightarrow> json" where
  "stamp now i = JStr (now i @ lit ''Z'')"

text \<open>
  The exceptions that can leave the modelled code, with their message where the code builds
  one. \<open>HTTPStatusError\<close> carries the status code and the text of the response,
  \<open>RequestError\<close> carries \<open>str(e)\<close>. \<open>JSONDecodeError\<close> is what \<open>response.json()\<close> raises
  (in Python a subclass of \<open>ValueError\<close>), \<open>AttributeError\<close> what \<open>.get\<close> raises on a value
  that is not a \<open>dict\<close>. \<open>OtherError\<close> stands for any other exception the HTTP client
  raises, under its class name.
\<close>

datatype exn =
    ValueError pystr
  | Exception pystr
  | HTTPStatusError nat pystr
  | RequestError pystr
  | JSONDecodeError
  | AttributeError
  | OtherError pystr

text \<open>
  The body of \<open>_extract_data_by_intent\<close> for a \<open>dict\<close> (lines 87-221). The branch for
  \<open>all\<close> repeats the five dictionaries as the source writes them; the values of a dictionary
  display are evaluated in order, so its five timestamps are five successive clock readings.
\<close>

definition extract_dict :: "(json \<Rightarrow> pystr) \<Rightarrow> (nat \<Rightarrow> pystr) \<Rightarrow> dict \<Rightarrow> pystr \<Rightarrow> dict" where
  "extract_dict builtin_str now container_data intent =
    (let (has_holds_v, hold_types) = has_holds builtin_str container_data in
     if intent = lit ''status'' then
       [(lit ''status'', dict_get_or container_data (lit ''State'') (JStr (lit ''Unknown''))),
        (lit ''container_state'', dict_get_or container_data (lit ''ContainerState'') (JStr (lit ''Unknown''))),
        (lit ''location'', dict_get_or container_data (lit ''Location'') (JStr (lit ''Unknown''))),
        (lit ''available'', JBool (eq_int_2 (dict_get_or container_data (lit ''Available'') (JInt 0)))),
        (lit ''availability_display_status'',
           dict_get_or container_data (lit ''AvailabilityDisplayStatus'') (JStr (lit ''Unknown''))),
        (lit ''last_updated'', stamp now 0)]
     else if intent = lit ''location'' then
       (let location_data =
          [(lit ''location'', dict_get_or container_data (lit ''Location'') (JStr (lit ''Unknown''))),
           (lit ''yard_name'', dict_get container_data (lit ''YardName'')),
           (lit ''block'', dict_get container_data (lit ''Block'')),
           (lit ''bay'', dict_get container_data (lit ''Bay'')),
           (lit ''position'', dict_get container_data (lit ''Position'')),
           (lit ''state'', dict_get_or container_data (lit ''State'') (JStr (lit ''Unknown''))),
           (lit ''container_state'', dict_get_or container_data (lit ''ContainerState'') (JStr (lit ''Unknown''))),
           (lit ''last_updated'', stamp now 0)]
        in if truthy (dict_get container_data (lit ''Block''))
              \<and> truthy (dict_get container_data (lit ''Bay''))
           then dict_set location_data (lit ''coordinates'')
                  (JObj [(lit ''lat'', JFloat float_40_7032), (lit ''lon'', JFloat float_neg_74_1468)])
           else location_data)
     else if intent = lit ''availability'' then
       (let available = eq_int_2 (dict_get_or container_data (lit ''Available'') (JInt 0)) in
        [(lit ''available'', JBool available),
         (lit ''availability_display_status'',
            dict_get_or container_data (lit ''AvailabilityDisplayStatus'') (JStr (lit ''No''))),
         (lit ''available_for_pickup'', JBool (available \<and> \<not> has_holds_v)),
         (lit ''order_of_accessibility'', dict_get container_data (lit ''OrderOfAccessibility'')),
         (lit ''last_updated'', stamp now 0)])
     else if intent = lit ''holds'' then
       [(lit ''has_holds'', JBool has_holds_v),
        (lit ''hold_types'', JArr (map JStr hold_types)),
        (lit ''carrier_release_status'', dict_get container_data (lit ''CarrierReleaseStatus'')),
        (lit ''custom_release_status'', dict_get container_data (lit ''CustomReleaseStatus'')),
        (lit ''usda_status'', dict_get container_data (lit ''UsdaStatus'')),
        (lit ''yard_release_status'', dict_get container_data (lit ''YardReleaseStatus'')),
        (lit ''misc_hold_status'', dict_get container_data (lit ''MiscHoldStatus'')),
        (lit ''misc_hold_detail'', dict_get container_data (lit ''MiscHoldDetail'')),
        (lit ''is_terminal_hold'', dict_get_or container_data (lit ''IsTerminalHold'') (JBool False)),
        (lit ''carrier_hold'', dict_get_or container_data (lit ''CarrierHold'') (JInt 0)),
        (lit ''last_updated'', stamp now 0)]
     else if intent = lit ''last_free_day'' then
       (let last_free_date = py_or (dict_get container_data (lit ''LastFreeDate''))
                                   (dict_get container_data (lit ''LastFreeDt''));
            line_last_free_date = py_or (dict_get container_data (lit ''LineLastFreeDate''))
                                        (dict_get container_data (lit ''LineLastFreeDt''));
            free_days = dict_get_or container_data (lit ''FreeDays'') (JStr (lit ''0''))
        in
        [(lit ''last_free_date'', last_free_date),
         (lit ''line_last_free_date'', line_last_free_date),
         (lit ''free_days'', free_days),
         (lit ''first_free_date'', dict_get container_data (lit ''FirstFreeDate'')),
         (lit ''demurrage_due_flag'', dict_get container_data (lit ''DemurrageDueFlag'')),
         (lit ''demurrage_amount'', dict_get_or container_data (lit ''DemurrageAmount'') (JFloat float_0_0)),
         (lit ''line_demurrage_amount'',
            dict_get_or container_data (lit ''LineDemurrageAmount'') (JFloat float_0_0)),
         (lit ''is_on_demurrage_warning'',
            dict_get_or container_data (lit ''IsOnDemurrageWarning'') (JBool False)),
         (lit ''last_updated'', stamp now 0)])
     else if intent = lit ''all'' then
       (let (has_holds_v, hold_types) = has_holds builtin_str container_data;
            available = eq_int_2 (dict_get_or container_data (lit ''Available'') (JInt 0));
            last_free_date = py_or (dict_get container_data (lit ''LastFreeDate''))
                                   (dict_get container_data (lit ''LastFreeDt''));
            line_last_free_date = py_or (dict_get container_data (lit ''LineLastFreeDate''))
                                        (dict_get container_data (lit ''LineLastFreeDt''))
        in
        [(lit ''status'', JObj
           [(lit ''status'', dict_get_or container_data (lit ''State'') (JStr (lit ''Unknown''))),
            (lit ''container_state'', dict_get_or container_data (lit ''ContainerState'') (JStr (lit ''Unknown''))),
            (lit ''location'', dict_get_or container_data (lit ''Location'') (JStr (lit ''Unknown''))),
            (lit ''available'', JBool available),
            (lit ''availability_display_status'',
               dict_get_or container_data (lit ''AvailabilityDisplayStatus'') (JStr (lit ''Unknown''))),
            (lit ''last_updated'', stamp now 0)]),
         (lit ''location'', JObj
           [(lit ''location'', dict_get_or container_data (lit ''Location'') (JStr (lit ''Unknown''))),
            (lit ''yard_name'', dict_get container_data (lit ''YardName'')),
            (lit ''block'', dict_get container_data (lit ''Block'')),
            (lit ''bay'', dict_get container_data (lit ''Bay'')),
            (lit ''position'', dict_get container_data (lit ''Position'')),
            (lit ''state'', dict_get_or container_data (lit ''State'') (JStr (lit ''Unknown''))),
            (lit ''container_state'', dict_get_or container_data (lit ''ContainerState'') (JStr (lit ''Unknown''))),
            (lit ''last_updated'', stamp now 1)]),
         (lit ''availability'', JObj
           [(lit ''available'', JBool available),
            (lit ''availability_display_status'',
               dict_get_or container_data (lit ''AvailabilityDisplayStatus'') (JStr (lit ''No''))),
            (lit ''available_for_pickup'', JBool (available \<and> \<not> has_holds_v)),
            (lit ''order_of_accessibility'', dict_get container_data (lit ''OrderOfAccessibility'')),
            (lit ''last_updated'', stamp now 2)]),
         (lit ''holds'', JObj
           [(lit ''has_holds'', JBool has_holds_v),
            (lit ''hold_types'', JArr (map JStr hold_types)),
            (lit ''carrier_release_status'', dict_get container_data (lit ''CarrierReleaseStatus'')),
            (lit ''custom_release_status'', dict_get container_data (lit ''CustomReleaseStatus'')),
            (lit ''usda_status'', dict_get container_data (lit ''UsdaStatus'')),
            (lit ''yard_release_status'', dict_get container_data (lit ''YardReleaseStatus'')),
            (lit ''misc_hold_status'', dict_get container_data (lit ''MiscHoldStatus'')),
            (lit ''misc_hold_detail'', dict_get container_data (lit ''MiscHoldDetail'')),
            (lit ''is_terminal_hold'', dict_get_or container_data (lit ''IsTerminalHold'') (JBool False)),
            (lit ''carrier_hold'', dict_get_or container_data (lit ''CarrierHold'') (JInt 0)),
            (lit ''last_updated'', stamp now 3)]),
         (lit ''last_free_day'', JObj
           [(lit ''last_free_date'', last_free_date),
            (lit ''line_last_free_date'', line_last_free_date),
            (lit ''free_days'', dict_get_or container_data (lit ''FreeDays'') (JStr (lit ''0''))),
            (lit ''first_free_date'', dict_get container_data (lit ''FirstFreeDate'')),
            (lit ''demurrage_due_flag'', dict_get container_data (lit ''DemurrageDueFlag'')),
            (lit ''demurrage_amount'', dict_get_or container_data (lit ''DemurrageAmount'') (JFloat float_0_0)),
            (lit ''line_demurrage_amount'',
               dict_get_or container_data (lit ''LineDemurrageAmount'') (JFloat float_0_0)),
            (lit ''is_on_demurrage_warning'',
               dict_get_or container_data (lit ''IsOnDemurrageWarning'') (JBool False)),
            (lit ''last_updated'', stamp now 4)])])
     else
       [(lit ''raw_data'', JObj container_data),
        (lit ''last_updated'', stamp now 0)])"

text \<open>
  \<open>_extract_data_by_intent\<close> on whatever the caller passes. The first statement executed is
  \<open>_has_holds(container_data)\<close>, whose \<open>data.get\<close> raises \<open>AttributeError\<close> when the argument
  is not a \<open>dict\<close>; on a \<open>dict\<close> nothing in the body can raise.
\<close>

definition extract_data_by_intent ::
  "(json \<Rightarrow> pystr) \<Rightarrow> (nat \<Rightarrow> pystr) \<Rightarrow> json \<Rightarrow> pystr \<Rightarrow> exn + json" where
  "extract_data_by_intent builtin_str now container_data intent =
    (case container_data of
       JObj d \<Rightarrow> Inr (JObj (extract_dict builtin_str now d intent))
     | _ \<Rightarrow> Inl AttributeError)"

text \<open>How many times one projection reads the clock.\<close>

definition utcnow_calls :: "pystr \<Rightarrow> nat" where
  "utcnow_calls intent = (if intent = lit ''all'' then 5 else 1)"

section \<open>The activity: \<open>scrape_pnct_activity\<close>\<close>

text \<open>
  What one \<open>client.get(url)\<close> followed by \<open>response.json()\<close> can give: the request fails
  in transport (\<open>httpx.RequestError\<close>, which includes timeouts; the text is \<open>str(e)\<close>), the
  client raises an exception of another class (such as \<open>httpx.InvalidURL\<close>), or a response
  arrives with its status code, its text and its body as JSON (\<open>None\<close> when the body is not
  JSON and \<open>response.json()\<close> raises).
\<close>

datatype http_outcome =
    TransportFailure pystr
  | ClientError pystr
  | Response nat pystr "json option"

text \<open>
  The surroundings of the activity: the upstream endpoint (\<open>http_get w n url\<close> is the outcome
  of the \<open>n\<close>-th GET ever issued), the two clocks (\<open>time_ms w n\<close> is
  \<open>int(time.time() * 1000)\<close> at the \<open>n\<close>-th GET, \<open>utcnow w n\<close> the \<open>n\<close>-th reading of
  \<open>datetime.utcnow().isoformat()\<close>) and Python's built-in \<open>str\<close>. The state counts the GETs
  issued and the clock readings made so far.
\<close>

record world =
  http_get :: "nat \<Rightarrow> pystr \<Rightarrow> http_outcome"
  time_ms :: "nat \<Rightarrow> int"
  utcnow :: "nat \<Rightarrow> pystr"
  builtin_str :: "json \<Rightarrow> pystr"

record counters =
  gets :: nat
  clock_reads :: nat

definition PNCT_API_BASE_URL :: pystr where
  "PNCT_API_BASE_URL = lit ''https://twpapi.pachesapeake.com/api/track/GetContainers''"

definition PNCT_SITE_ID :: pystr where
  "PNCT_SITE_ID = lit ''PNCT_NJ''"

text \<open>The URL built at line 53 for the next GET.\<close>

definition request_url :: "world \<Rightarrow> counters \<Rightarrow> pystr \<Rightarrow> pystr" where
  "request_url w s container_id =
     PNCT_API_BASE_URL @ lit ''?siteId='' @ PNCT_SITE_ID @ lit ''&key='' @ container_id
       @ lit ''&_='' @ py_format (builtin_str w) (JInt (time_ms w (gets s)))"

text \<open>
  \<open>_fetch_container_from_api\<close> (lines 49-68). \<open>response.raise_for_status()\<close> raises
  \<open>HTTPStatusError\<close> for every status outside 200-299.
\<close>

definition fetch_container_from_api :: "world \<Rightarrow> counters \<Rightarrow> pystr \<Rightarrow> (exn + json) \<times> counters" where
  "fetch_container_from_api w s container_id =
    (let url = request_url w s container_id;
         s' = s\<lparr>gets := gets s + 1\<rparr>
     in case http_get w (gets s) url of
          TransportFailure msg \<Rightarrow> (Inl (RequestError msg), s')
        | ClientError cls \<Rightarrow> (Inl (OtherError cls), s')
        | Response status_code text body \<Rightarrow>
            if \<not> (200 \<le> status_code \<and> status_code < 300)
            then (Inl (HTTPStatusError status_code text), s')
            else (case body of
                    None \<Rightarrow> (Inl JSONDecodeError, s')
                  | Some data \<Rightarrow>
                      (Inr (case data of
                              JArr (x # xs) \<Rightarrow> x
                            | JObj d \<Rightarrow> JObj d
                            | _ \<Rightarrow> JNull), s')))"

text \<open>
  \<open>scrape_pnct_activity\<close> (lines 13-47). The \<open>try\<close> block is evaluated first; the handler
  then rewrites \<open>HTTPStatusError\<close> and \<open>RequestError\<close> and re-raises anything else.
\<close>

definition scrape_pnct_activity ::
  "world \<Rightarrow> counters \<Rightarrow> pystr \<Rightarrow> pystr \<Rightarrow> (exn + json) \<times> counters" where
  "scrape_pnct_activity w s container_id intent =
    (if container_id = [] \<or> length container_id < 4 then
       (Inl (ValueError (lit ''Invalid container ID format: '' @ container_id)), s)
     else
       (let (fetched, s1) = fetch_container_from_api w s container_id;
            (tried, s2) =
              (case fetched of
                 Inl e \<Rightarrow> (Inl e, s1)
               | Inr container_data \<Rightarrow>
                   if \<not> truthy container_data then
                     (Inl (ValueError (lit ''Container '' @ container_id
                                         @ lit '' not found in PNCT system'')), s1)
                   else
                     (case extract_data_by_intent (builtin_str w)
                             (\<lambda>i. utcnow w (clock_reads s1 + i)) container_data intent of
                        Inl e \<Rightarrow> (Inl e, s1)
                      | Inr scraped_data \<Rightarrow>
                          (Inr (JObj
                             [(lit ''container_id'', JStr container_id),
                              (lit ''intent'', JStr intent),
                              (lit ''data'', scraped_data),
                              (lit ''scraped_at'',
                                 JStr (utcnow w (clock_reads s1 + utcnow_calls intent) @ lit ''Z''))]),
                           s1\<lparr>clock_reads := clock_reads s1 + utcnow_calls intent + 1\<rparr>)))
        in case tried of
             Inr v \<Rightarrow> (Inr v, s2)
           | Inl (HTTPStatusError status_code text) \<Rightarrow>
               if status_code = 404
               then (Inl (ValueError (lit ''Container '' @ container_id @ lit '' not found'')), s2)
               else (Inl (Exception (lit ''API error: ''
                                       @ py_format (builtin_str w) (JInt (int status_code))
                                       @ lit '' - '' @ text)), s2)
           | Inl (RequestError msg) \<Rightarrow> (Inl (Exception (lit ''Network error: '' @ msg)), s2)
           | Inl e \<Rightarrow> (Inl e, s2)))"

section \<open>The workflow: \<open>PNCTScrapeWorkflow.run\<close>\<close>

text \<open>
  The fields of \<open>RetryPolicy\<close> (intervals in seconds). A \<open>maximum_attempts\<close> of 0 means no
  limit; \<open>non_retryable_error_types\<close> is \<open>None\<close> unless given, which lists no type.
\<close>

record RetryPolicy =
  initial_interval :: rat
  backoff_coefficient :: rat
  maximum_interval :: rat
  maximum_attempts :: nat
  non_retryable_error_types :: "pystr list"

text \<open>The policy built at pnct_workflow.py, lines 21-26.\<close>

definition workflow_retry_policy :: RetryPolicy where
  "workflow_retry_policy =
     \<lparr>initial_interval = 1, backoff_coefficient = 2, maximum_interval = 10,
      maximum_attempts = 3, non_retryable_error_types = []\<rparr>"

text \<open>The class name of an exception, under which the engine reports a failed activity.\<close>

fun error_type :: "exn \<Rightarrow> pystr" where
  "error_type (ValueError _) = lit ''ValueError''"
| "error_type (Exception _) = lit ''Exception''"
| "error_type (HTTPStatusError _ _) = lit ''HTTPStatusError''"
| "error_type (RequestError _) = lit ''RequestError''"
| "error_type JSONDecodeError = lit ''JSONDecodeError''"
| "error_type AttributeError = lit ''AttributeError''"
| "error_type (OtherError cls) = cls"

text \<open>The wait after the \<open>n\<close>-th failed attempt (\<open>n\<close> from 1).\<close>

definition retry_interval :: "RetryPolicy \<Rightarrow> nat \<Rightarrow> rat" where
  "retry_interval p n =
     min (initial_interval p * backoff_coefficient p ^ (n - 1)) (maximum_interval p)"

record execution =
  outcome :: "exn + json"
  attempts :: nat
  waits :: "rat list"
  final :: counters

text \<open>
  Modelled from the spec: the retry loop behind \<open>workflow.execute_activity\<close>, which belongs
  to the workflow engine and is not among the sources. Section 4.3 and section 5: one attempt
  of the activity is run; success is returned as it is; after a failure that is retryable
  and while the attempt budget lasts, the engine waits the backoff interval and runs the next
  attempt, strictly one after the other; otherwise the last error is surfaced. The loop knows
  nothing of the activity: which failures are terminal at once is what the policy handed over
  by the source declares, as the class names listed in \<open>non_retryable_error_types\<close>.
  \<open>attempt\<close> numbers the attempt about to run, from 1; \<open>ws\<close> collects the waits so far.
  The loop may run forever when the policy sets no limit, so it is a partial function and
  \<open>None\<close> stands for an execution that never returns.
\<close>

partial_function (option) execute_activity ::
  "RetryPolicy \<Rightarrow> (counters \<Rightarrow> (exn + json) \<times> counters) \<Rightarrow> nat \<Rightarrow> rat list \<Rightarrow> counters
     \<Rightarrow> execution option" where
  "execute_activity p act attempt ws s =
    (case act s of
       (Inr v, s') \<Rightarrow> Some \<lparr>outcome = Inr v, attempts = attempt, waits = ws, final = s'\<rparr>
     | (Inl e, s') \<Rightarrow>
         if error_type e \<in> set (non_retryable_error_types p)
            \<or> (maximum_attempts p \<noteq> 0 \<and> maximum_attempts p \<le> attempt)
         then Some \<lparr>outcome = Inl e, attempts = attempt, waits = ws, final = s'\<rparr>
         else execute_activity p act (attempt + 1) (ws @ [retry_interval p attempt]) s')"

text \<open>
  \<open>PNCTScrapeWorkflow.run\<close> (pnct_workflow.py, lines 12-30). The start-to-close timeout of
  60 seconds bounds an attempt in real time and has no counterpart here; a timeout of the
  GET itself (30 seconds) is a \<open>TransportFailure\<close>.
\<close>

definition PNCTScrapeWorkflow_run :: "world \<Rightarrow> counters \<Rightarrow> pystr \<Rightarrow> pystr \<Rightarrow> execution option" where
  "PNCTScrapeWorkflow_run w s container_id intent =
     execute_activity workflow_retry_policy
       (\<lambda>s. scrape_pnct_activity w s container_id intent) 1 [] s"

section \<open>Notions used to state the properties\<close>

text \<open>A view with its \<open>last_updated\<close> entry left out.\<close>

definition without_last_updated :: "dict \<Rightarrow> dict" where
  "without_last_updated v = filter (\<lambda>kv. fst kv \<noteq> lit ''last_updated'') v"

text \<open>The sub-object stored under a key of a view, if there is one.\<close>

definition sub_view :: "dict \<Rightarrow> pystr \<Rightarrow> dict option" where
  "sub_view v k = (case map_of v k of Some (JObj sub) \<Rightarrow> Some sub | _ \<Rightarrow> None)"

text \<open>
  The record \<open>_fetch_container_from_api\<close> returns for a decoded body (lines 63-68): the
  first element of a non-empty array, an object itself, \<open>None\<close> for anything else.
\<close>

definition selected :: "json \<Rightarrow> json" where
  "selected data = (case data of JArr (x # xs) \<Rightarrow> x | JObj d \<Rightarrow> JObj d | _ \<Rightarrow> JNull)"

text \<open>
  The failure kinds of the spec as the source raises them: both \<open>InvalidInput\<close> and
  \<open>NotFound\<close> are a \<open>ValueError\<close>, told apart by the message.
\<close>

definition InvalidInput :: "pystr \<Rightarrow> exn" where
  "InvalidInput container_id = ValueError (lit ''Invalid container ID format: '' @ container_id)"

definition is_NotFound :: "pystr \<Rightarrow> exn \<Rightarrow> bool" where
  "is_NotFound container_id e \<longleftrightarrow>
     e = ValueError (lit ''Container '' @ container_id @ lit '' not found'')
     \<or> e = ValueError (lit ''Container '' @ container_id @ lit '' not found in PNCT system'')"

section \<open>Basic facts\<close>

lemma lit_Nil: "lit [] = []" by (simp add: lit_def)
lemma lit_Cons: "lit (c # cs) = of_char c # lit cs" by (simp add: lit_def)
lemma lit_eq_iff: "lit a = lit b \<longleftrightarrow> a = b"
  unfolding lit_def by (rule inj_map_eq_map) (rule inj_of_char)

lemma lit_eq_Nil: "lit s = [] \<longleftrightarrow> s = []"
  by (simp add: lit_def)

lemma has_holds_filter:
  "snd (has_holds bs d) =
     map snd (filter fst
       [(dict_get d (lit ''CarrierReleaseStatus'') = JStr (lit ''HOLD''), lit ''Carrier Hold''),
        (dict_get d (lit ''CustomReleaseStatus'') \<noteq> JStr (lit ''RELEASED''), lit ''Customs Hold''),
        (dict_get d (lit ''UsdaStatus'') \<noteq> JStr (lit ''RELEASED''), lit ''USDA Hold''),
        (truthy (dict_get d (lit ''YardReleaseStatus''))
           \<and> dict_get d (lit ''YardReleaseStatus'') \<noteq> JStr (lit ''RELEASED''), lit ''Yard Hold''),
        (truthy (dict_get d (lit ''MiscHoldStatus'')),
           lit ''Misc Hold: '' @ py_format bs (dict_get d (lit ''MiscHoldStatus''))),
        (truthy (dict_get d (lit ''IsTerminalHold'')), lit ''Terminal Hold'')])"
  by (simp add: has_holds_def Let_def)

lemma has_holds_fst: "fst (has_holds bs d) = (snd (has_holds bs d) \<noteq> [])"
  by (simp add: has_holds_def Let_def)

lemma has_holds_iff:
  "fst (has_holds bs d) \<longleftrightarrow>
     dict_get d (lit ''CarrierReleaseStatus'') = JStr (lit ''HOLD'')
     \<or> dict_get d (lit ''CustomReleaseStatus'') \<noteq> JStr (lit ''RELEASED'')
     \<or> dict_get d (lit ''UsdaStatus'') \<noteq> JStr (lit ''RELEASED'')
     \<or> (truthy (dict_get d (lit ''YardReleaseStatus''))
          \<and> dict_get d (lit ''YardReleaseStatus'') \<noteq> JStr (lit ''RELEASED''))
     \<or> truthy (dict_get d (lit ''MiscHoldStatus''))
     \<or> truthy (dict_get d (lit ''IsTerminalHold''))"
  unfolding has_holds_fst has_holds_filter by auto

lemma extract_dict_status:
  "extract_dict bs now d (lit ''status'') =
     [(lit ''status'', dict_get_or d (lit ''State'') (JStr (lit ''Unknown''))),
      (lit ''container_state'', dict_get_or d (lit ''ContainerState'') (JStr (lit ''Unknown''))),
      (lit ''location'', dict_get_or d (lit ''Location'') (JStr (lit ''Unknown''))),
      (lit ''available'', JBool (eq_int_2 (dict_get_or d (lit ''Available'') (JInt 0)))),
      (lit ''availability_display_status'',
         dict_get_or d (lit ''AvailabilityDisplayStatus'') (JStr (lit ''Unknown''))),
      (lit ''last_updated'', stamp now 0)]"
  by (simp add: extract_dict_def case_prod_beta)

lemma extract_dict_location:
  "extract_dict bs now d (lit ''location'') =
     [(lit ''location'', dict_get_or d (lit ''Location'') (JStr (lit ''Unknown''))),
      (lit ''yard_name'', dict_get d (lit ''YardName'')),
      (lit ''block'', dict_get d (lit ''Block'')),
      (lit ''bay'', dict_get d (lit ''Bay'')),
      (lit ''position'', dict_get d (lit ''Position'')),
      (lit ''state'', dict_get_or d (lit ''State'') (JStr (lit ''Unknown''))),
      (lit ''container_state'', dict_get_or d (lit ''ContainerState'') (JStr (lit ''Unknown''))),
      (lit ''last_updated'', stamp now 0)]
     @ (if truthy (dict_get d (lit ''Block'')) \<and> truthy (dict_get d (lit ''Bay''))
        then [(lit ''coordinates'',
                JObj [(lit ''lat'', JFloat float_40_7032), (lit ''lon'', JFloat float_neg_74_1468)])]
        else [])"
  by (simp add: extract_dict_def case_prod_beta lit_eq_iff Let_def)

lemma extract_dict_availability:
  "extract_dict bs now d (lit ''availability'') =
     [(lit ''available'', JBool (eq_int_2 (dict_get_or d (lit ''Available'') (JInt 0)))),
      (lit ''availability_display_status'',
         dict_get_or d (lit ''AvailabilityDisplayStatus'') (JStr (lit ''No''))),
      (lit ''available_for_pickup'',
         JBool (eq_int_2 (dict_get_or d (lit ''Available'') (JInt 0)) \<and> \<not> fst (has_holds bs d))),
      (lit ''order_of_accessibility'', dict_get d (lit ''OrderOfAccessibility'')),
      (lit ''last_updated'', stamp now 0)]"
  by (simp add: extract_dict_def case_prod_beta lit_eq_iff Let_def)

lemma extract_dict_holds:
  "extract_dict bs now d (lit ''holds'') =
     [(lit ''has_holds'', JBool (fst (has_holds bs d))),
      (lit ''hold_types'', JArr (map JStr (snd (has_holds bs d)))),
      (lit ''carrier_release_status'', dict_get d (lit ''CarrierReleaseStatus'')),
      (lit ''custom_release_status'', dict_get d (lit ''CustomReleaseStatus'')),
      (lit ''usda_status'', dict_get d (lit ''UsdaStatus'')),
      (lit ''yard_release_status'', dict_get d (lit ''YardReleaseStatus'')),
      (lit ''misc_hold_status'', dict_get d (lit ''MiscHoldStatus'')),
      (lit ''misc_hold_detail'', dict_get d (lit ''MiscHoldDetail'')),
      (lit ''is_terminal_hold'', dict_get_or d (lit ''IsTerminalHold'') (JBool False)),
      (lit ''carrier_hold'', dict_get_or d (lit ''CarrierHold'') (JInt 0)),
      (lit ''last_updated'', stamp now 0)]"
  by (simp add: extract_dict_def case_prod_beta lit_eq_iff Let_def)

lemma extract_dict_last_free_day:
  "extract_dict bs now d (lit ''last_free_day'') =
     [(lit ''last_free_date'', py_or (dict_get d (lit ''LastFreeDate'')) (dict_get d (lit ''LastFreeDt''))),
      (lit ''line_last_free_date'',
         py_or (dict_get d (lit ''LineLastFreeDate'')) (dict_get d (lit ''LineLastFreeDt''))),
      (lit ''free_days'', dict_get_or d (lit ''FreeDays'') (JStr (lit ''0''))),
      (lit ''first_free_date'', dict_get d (lit ''FirstFreeDate'')),
      (lit ''demurrage_due_flag'', dict_get d (lit ''DemurrageDueFlag'')),
      (lit ''demurrage_amount'', dict_get_or d (lit ''DemurrageAmount'') (JFloat float_0_0)),
      (lit ''line_demurrage_amount'', dict_get_or d (lit ''LineDemurrageAmount'') (JFloat float_0_0)),
      (lit ''is_on_demurrage_warning'', dict_get_or d (lit ''IsOnDemurrageWarning'') (JBool False)),
      (lit ''last_updated'', stamp now 0)]"
  by (simp add: extract_dict_def case_prod_beta lit_eq_iff Let_def)

lemma extract_dict_all:
  "extract_dict bs now d (lit ''all'') =
     [(lit ''status'', JObj (extract_dict bs now d (lit ''status''))),
      (lit ''location'', JObj
         [(lit ''location'', dict_get_or d (lit ''Location'') (JStr (lit ''Unknown''))),
          (lit ''yard_name'', dict_get d (lit ''YardName'')),
          (lit ''block'', dict_get d (lit ''Block'')),
          (lit ''bay'', dict_get d (lit ''Bay'')),
          (lit ''position'', dict_get d (lit ''Position'')),
          (lit ''state'', dict_get_or d (lit ''State'') (JStr (lit ''Unknown''))),
          (lit ''container_state'', dict_get_or d (lit ''ContainerState'') (JStr (lit ''Unknown''))),
          (lit ''last_updated'', stamp now 1)]),
      (lit ''availability'', JObj (extract_dict bs (\<lambda>i. now (i + 2)) d (lit ''availability''))),
      (lit ''holds'', JObj (extract_dict bs (\<lambda>i. now (i + 3)) d (lit ''holds''))),
      (lit ''last_free_day'', JObj (extract_dict bs (\<lambda>i. now (i + 4)) d (lit ''last_free_day'')))]"
  unfolding extract_dict_status extract_dict_availability extract_dict_holds extract_dict_last_free_day
  by (simp add: extract_dict_def case_prod_beta lit_eq_iff Let_def stamp_def eval_nat_numeral)

lemma extract_dict_other:
  "intent \<notin> {lit ''status'', lit ''location'', lit ''availability'', lit ''holds'',
               lit ''last_free_day'', lit ''all''} \<Longrightarrow>
   extract_dict bs now d intent = [(lit ''raw_data'', JObj d), (lit ''last_updated'', stamp now 0)]"
  by (simp add: extract_dict_def case_prod_beta)

lemma misc_label_neq:
  "lit ''Carrier Hold'' \<noteq> lit ''Misc Hold: '' @ x"
  "lit ''Customs Hold'' \<noteq> lit ''Misc Hold: '' @ x"
  "lit ''USDA Hold'' \<noteq> lit ''Misc Hold: '' @ x"
  by (simp_all add: lit_Cons lit_Nil)

lemma dict_get_absent: "map_of d k = None \<Longrightarrow> dict_get d k = JNull"
  by (simp add: dict_get_def dict_get_or_def)

lemma dict_get_Nil: "dict_get [] k = JNull" "dict_get_or [] k v = v"
  by (simp_all add: dict_get_def dict_get_or_def)

lemma has_holds_empty: "has_holds bs [] = (True, [lit ''Customs Hold'', lit ''USDA Hold''])"
  by (simp add: has_holds_def dict_get_Nil)

lemma carrier_label_iff:
  "lit ''Carrier Hold'' \<in> set (snd (has_holds bs d))
     \<longleftrightarrow> dict_get d (lit ''CarrierReleaseStatus'') = JStr (lit ''HOLD'')"
  by (simp add: has_holds_filter lit_eq_iff misc_label_neq)

lemma customs_label_iff:
  "lit ''Customs Hold'' \<in> set (snd (has_holds bs d))
     \<longleftrightarrow> dict_get d (lit ''CustomReleaseStatus'') \<noteq> JStr (lit ''RELEASED'')"
  by (simp add: has_holds_filter lit_eq_iff misc_label_neq)

lemma usda_label_iff:
  "lit ''USDA Hold'' \<in> set (snd (has_holds bs d))
     \<longleftrightarrow> dict_get d (lit ''UsdaStatus'') \<noteq> JStr (lit ''RELEASED'')"
  by (simp add: has_holds_filter lit_eq_iff misc_label_neq)


lemma empty_status:
  "extract_dict bs now [] (lit ''status'') =
       [(lit ''status'', JStr (lit ''Unknown'')),
        (lit ''container_state'', JStr (lit ''Unknown'')),
        (lit ''location'', JStr (lit ''Unknown'')),
        (lit ''available'', JBool False),
        (lit ''availability_display_status'', JStr (lit ''Unknown'')),
        (lit ''last_updated'', stamp now 0)]"
  by (simp add: extract_dict_status dict_get_Nil)

lemma empty_location:
  "extract_dict bs now [] (lit ''location'') =
       [(lit ''location'', JStr (lit ''Unknown'')),
        (lit ''yard_name'', JNull),
        (lit ''block'', JNull),
        (lit ''bay'', JNull),
        (lit ''position'', JNull),
        (lit ''state'', JStr (lit ''Unknown'')),
        (lit ''container_state'', JStr (lit ''Unknown'')),
        (lit ''last_updated'', stamp now 0)]"
  by (simp add: extract_dict_location dict_get_Nil)

lemma empty_availability:
  "extract_dict bs now [] (lit ''availability'') =
       [(lit ''available'', JBool False),
        (lit ''availability_display_status'', JStr (lit ''No'')),
        (lit ''available_for_pickup'', JBool False),
        (lit ''order_of_accessibility'', JNull),
        (lit ''last_updated'', stamp now 0)]"
  by (simp add: extract_dict_availability dict_get_Nil)

lemma empty_holds:
  "extract_dict bs now [] (lit ''holds'') =
       [(lit ''has_holds'', JBool True),
        (lit ''hold_types'', JArr [JStr (lit ''Customs Hold''), JStr (lit ''USDA Hold'')]),
        (lit ''carrier_release_status'', JNull),
        (lit ''custom_release_status'', JNull),
        (lit ''usda_status'', JNull),
        (lit ''yard_release_status'', JNull),
        (lit ''misc_hold_status'', JNull),
        (lit ''misc_hold_detail'', JNull),
        (lit ''is_terminal_hold'', JBool False),
        (lit ''carrier_hold'', JInt 0),
        (lit ''last_updated'', stamp now 0)]"
  by (simp add: extract_dict_holds dict_get_Nil has_holds_empty)

lemma empty_last_free_day:
  "extract_dict bs now [] (lit ''last_free_day'') =
       [(lit ''last_free_date'', JNull),
        (lit ''line_last_free_date'', JNull),
        (lit ''free_days'', JStr (lit ''0'')),
        (lit ''first_free_date'', JNull),
        (lit ''demurrage_due_flag'', JNull),
        (lit ''demurrage_amount'', JFloat float_0_0),
        (lit ''line_demurrage_amount'', JFloat float_0_0),
        (lit ''is_on_demurrage_warning'', JBool False),
        (lit ''last_updated'', stamp now 0)]"
  by (simp add: extract_dict_last_free_day dict_get_Nil py_or_def)

lemma empty_all:
  "extract_dict bs now [] (lit ''all'') =
       [(lit ''status'', JObj
          [(lit ''status'', JStr (lit ''Unknown'')),
           (lit ''container_state'', JStr (lit ''Unknown'')),
           (lit ''location'', JStr (lit ''Unknown'')),
           (lit ''available'', JBool False),
           (lit ''availability_display_status'', JStr (lit ''Unknown'')),
           (lit ''last_updated'', stamp now 0)]),
        (lit ''location'', JObj
          [(lit ''location'', JStr (lit ''Unknown'')),
           (lit ''yard_name'', JNull),
           (lit ''block'', JNull),
           (lit ''bay'', JNull),
           (lit ''position'', JNull),
           (lit ''state'', JStr (lit ''Unknown'')),
           (lit ''container_state'', JStr (lit ''Unknown'')),
           (lit ''last_updated'', stamp now 1)]),
        (lit ''availability'', JObj
          [(lit ''available'', JBool False),
           (lit ''availability_display_status'', JStr (lit ''No'')),
           (lit ''available_for_pickup'', JBool False),
           (lit ''order_of_accessibility'', JNull),
           (lit ''last_updated'', stamp now 2)]),
        (lit ''holds'', JObj
          [(lit ''has_holds'', JBool True),
           (lit ''hold_types'', JArr [JStr (lit ''Customs Hold''), JStr (lit ''USDA Hold'')]),
           (lit ''carrier_release_status'', JNull),
           (lit ''custom_release_status'', JNull),
           (lit ''usda_status'', JNull),
           (lit ''yard_release_status'', JNull),
           (lit ''misc_hold_status'', JNull),
           (lit ''misc_hold_detail'', JNull),
           (lit ''is_terminal_hold'', JBool False),
           (lit ''carrier_hold'', JInt 0),
           (lit ''last_updated'', stamp now 3)]),
        (lit ''last_free_day'', JObj
          [(lit ''last_free_date'', JNull),
           (lit ''line_last_free_date'', JNull),
           (lit ''free_days'', JStr (lit ''0'')),
           (lit ''first_free_date'', JNull),
           (lit ''demurrage_due_flag'', JNull),
           (lit ''demurrage_amount'', JFloat float_0_0),
           (lit ''line_demurrage_amount'', JFloat float_0_0),
           (lit ''is_on_demurrage_warning'', JBool False),
           (lit ''last_updated'', stamp now 4)])]"
  by (simp add: extract_dict_all empty_status empty_availability empty_holds empty_last_free_day
        dict_get_Nil stamp_def eval_nat_numeral)

subsection \<open>The activity and the workflow, case by case\<close>

lemma fetch_eq:
  "fetch_container_from_api w s cid =
     ((case http_get w (gets s) (request_url w s cid) of
         TransportFailure msg \<Rightarrow> Inl (RequestError msg)
       | ClientError cls \<Rightarrow> Inl (OtherError cls)
       | Response code text body \<Rightarrow>
           if \<not> (200 \<le> code \<and> code < 300) then Inl (HTTPStatusError code text)
           else (case body of None \<Rightarrow> Inl JSONDecodeError | Some data \<Rightarrow> Inr (selected data))),
      s\<lparr>gets := gets s + 1\<rparr>)"
  unfolding fetch_container_from_api_def selected_def Let_def
  by (simp split: http_outcome.split option.split)

lemma valid_id: "4 \<le> length cid \<Longrightarrow> \<not> (cid = [] \<or> length cid < 4)"
  by auto

lemma scrape_transport:
  assumes "4 \<le> length cid" "http_get w (gets s) (request_url w s cid) = TransportFailure msg"
  shows "scrape_pnct_activity w s cid intent
           = (Inl (Exception (lit ''Network error: '' @ msg)), s\<lparr>gets := gets s + 1\<rparr>)"
  using assms valid_id [of cid] by (simp add: scrape_pnct_activity_def fetch_eq)

lemma scrape_client_error:
  assumes "4 \<le> length cid" "http_get w (gets s) (request_url w s cid) = ClientError cls"
  shows "scrape_pnct_activity w s cid intent = (Inl (OtherError cls), s\<lparr>gets := gets s + 1\<rparr>)"
  using assms valid_id [of cid] by (simp add: scrape_pnct_activity_def fetch_eq)

lemma scrape_status:
  assumes "4 \<le> length cid" "http_get w (gets s) (request_url w s cid) = Response code text body"
    "\<not> (200 \<le> code \<and> code < 300)"
  shows "scrape_pnct_activity w s cid intent
           = (if code = 404
              then Inl (ValueError (lit ''Container '' @ cid @ lit '' not found''))
              else Inl (Exception (lit ''API error: '' @ py_format (builtin_str w) (JInt (int code))
                                    @ lit '' - '' @ text)),
              s\<lparr>gets := gets s + 1\<rparr>)"
  using assms valid_id [of cid] by (simp add: scrape_pnct_activity_def fetch_eq)

lemma scrape_undecodable:
  assumes "4 \<le> length cid" "http_get w (gets s) (request_url w s cid) = Response code text None"
    "200 \<le> code" "code < 300"
  shows "scrape_pnct_activity w s cid intent = (Inl JSONDecodeError, s\<lparr>gets := gets s + 1\<rparr>)"
  using assms valid_id [of cid] by (simp add: scrape_pnct_activity_def fetch_eq)

lemma scrape_falsy:
  assumes "4 \<le> length cid" "http_get w (gets s) (request_url w s cid) = Response code text (Some data)"
    "200 \<le> code" "code < 300" "\<not> truthy (selected data)"
  shows "scrape_pnct_activity w s cid intent
           = (Inl (ValueError (lit ''Container '' @ cid @ lit '' not found in PNCT system'')),
              s\<lparr>gets := gets s + 1\<rparr>)"
  using assms valid_id [of cid] by (simp add: scrape_pnct_activity_def fetch_eq)

lemma scrape_record:
  assumes "4 \<le> length cid" "http_get w (gets s) (request_url w s cid) = Response code text (Some data)"
    "200 \<le> code" "code < 300" "truthy (selected data)"
  shows "scrape_pnct_activity w s cid intent
           = (case extract_data_by_intent (builtin_str w) (\<lambda>i. utcnow w (clock_reads s + i))
                     (selected data) intent of
                Inl e \<Rightarrow> (Inl e, s\<lparr>gets := gets s + 1\<rparr>)
              | Inr scraped_data \<Rightarrow>
                  (Inr (JObj
                     [(lit ''container_id'', JStr cid),
                      (lit ''intent'', JStr intent),
                      (lit ''data'', scraped_data),
                      (lit ''scraped_at'',
                         JStr (utcnow w (clock_reads s + utcnow_calls intent) @ lit ''Z''))]),
                   s\<lparr>gets := gets s + 1, clock_reads := clock_reads s + utcnow_calls intent + 1\<rparr>))"
  using assms valid_id [of cid]
  by (simp add: scrape_pnct_activity_def fetch_eq extract_data_by_intent_def split: json.split)


lemma scrape_invalid:
  "cid = [] \<or> length cid < 4 \<Longrightarrow>
   scrape_pnct_activity w s cid intent = (Inl (InvalidInput cid), s)"
  by (simp add: scrape_pnct_activity_def InvalidInput_def)

lemma scrape_gets:
  "gets (snd (scrape_pnct_activity w s cid intent)) \<le> gets s + 1"
proof (cases "4 \<le> length cid")
  case False
  then show ?thesis by (simp add: scrape_pnct_activity_def)
next
  case valid: True
  show ?thesis
  proof (cases "http_get w (gets s) (request_url w s cid)")
    case (TransportFailure msg)
    show ?thesis by (simp add: scrape_transport [OF valid TransportFailure])
  next
    case (ClientError cls)
    show ?thesis by (simp add: scrape_client_error [OF valid ClientError])
  next
    case resp: (Response code msg body)
    show ?thesis
    proof (cases "200 \<le> code \<and> code < 300")
      case False
      show ?thesis by (simp add: scrape_status [OF valid resp False])
    next
      case ok: True
      show ?thesis
      proof (cases body)
        case None
        with valid resp ok show ?thesis by (simp add: scrape_undecodable)
      next
        case (Some data)
        show ?thesis
        proof (cases "truthy (selected data)")
          case False
          with valid resp ok Some show ?thesis by (simp add: scrape_falsy)
        next
          case True
          with valid resp ok Some show ?thesis
            by (simp add: scrape_record split: sum.split)
        qed
      qed
    qed
  qed
qed

lemma retry_interval_policy:
  "retry_interval workflow_retry_policy n = min (2 ^ (n - 1)) 10"
  by (simp add: retry_interval_def workflow_retry_policy_def)

lemma policy_fields:
  "maximum_attempts workflow_retry_policy = 3"
  "non_retryable_error_types workflow_retry_policy = []"
  by (simp_all add: workflow_retry_policy_def)

lemma exec_step:
  "execute_activity workflow_retry_policy act n ws s =
     (case act s of
        (Inr v, s') \<Rightarrow> Some \<lparr>outcome = Inr v, attempts = n, waits = ws, final = s'\<rparr>
      | (Inl e, s') \<Rightarrow>
          if 3 \<le> n then Some \<lparr>outcome = Inl e, attempts = n, waits = ws, final = s'\<rparr>
          else execute_activity workflow_retry_policy act (n + 1)
                 (ws @ [retry_interval workflow_retry_policy n]) s')"
  by (subst execute_activity.simps)
     (simp add: policy_fields split: prod.split sum.split)

lemma run_cases:
  "PNCTScrapeWorkflow_run w s cid intent =
     (case scrape_pnct_activity w s cid intent of
        (Inr v, s1) \<Rightarrow> Some \<lparr>outcome = Inr v, attempts = 1, waits = [], final = s1\<rparr>
      | (Inl e1, s1) \<Rightarrow>
          (case scrape_pnct_activity w s1 cid intent of
             (Inr v, s2) \<Rightarrow> Some \<lparr>outcome = Inr v, attempts = 2, waits = [1], final = s2\<rparr>
           | (Inl e2, s2) \<Rightarrow>
               (case scrape_pnct_activity w s2 cid intent of
                  (r, s3) \<Rightarrow> Some \<lparr>outcome = r, attempts = 3, waits = [1, 2], final = s3\<rparr>)))"
  unfolding PNCTScrapeWorkflow_run_def
  apply (subst exec_step)
  apply (subst exec_step)
  apply (subst exec_step)
  apply (simp add: retry_interval_policy split: prod.split sum.split)
  done

lemma run_total:
  "\<exists>ex. PNCTScrapeWorkflow_run w s cid intent = Some ex
      \<and> attempts ex \<le> 3
      \<and> waits ex = take (attempts ex - 1) [1, 2]
      \<and> (\<forall>e. outcome ex = Inl e \<longrightarrow> attempts ex = 3)"
  by (simp add: run_cases split: prod.split sum.split)

lemma run_three_failures:
  assumes "scrape_pnct_activity w s cid intent = (Inl e1, s1)"
    and "scrape_pnct_activity w s1 cid intent = (Inl e2, s2)"
    and "scrape_pnct_activity w s2 cid intent = (Inl e3, s3)"
  shows "PNCTScrapeWorkflow_run w s cid intent
           = Some \<lparr>outcome = Inl e3, attempts = 3, waits = [1, 2], final = s3\<rparr>"
  using assms by (simp add: run_cases)

lemma run_gets:
  "PNCTScrapeWorkflow_run w s cid intent = Some ex \<Longrightarrow> gets (final ex) \<le> gets s + 3"
proof -
  assume run: "PNCTScrapeWorkflow_run w s cid intent = Some ex"
  obtain r1 s1 where a1: "scrape_pnct_activity w s cid intent = (r1, s1)" by (cases "scrape_pnct_activity w s cid intent")
  obtain r2 s2 where a2: "scrape_pnct_activity w s1 cid intent = (r2, s2)" by (cases "scrape_pnct_activity w s1 cid intent")
  obtain r3 s3 where a3: "scrape_pnct_activity w s2 cid intent = (r3, s3)" by (cases "scrape_pnct_activity w s2 cid intent")
  have g1: "gets s1 \<le> gets s + 1" using scrape_gets [of w s cid intent] a1 by simp
  have g2: "gets s2 \<le> gets s1 + 1" using scrape_gets [of w s1 cid intent] a2 by simp
  have g3: "gets s3 \<le> gets s2 + 1" using scrape_gets [of w s2 cid intent] a3 by simp
  have "final ex = s1 \<or> final ex = s2 \<or> final ex = s3"
    using run a1 a2 a3 by (auto simp add: run_cases split: sum.splits)
  with g1 g2 g3 show ?thesis by auto
qed

lemma selected_falsy:
  "(\<not> truthy (selected data))
     = (case data of JArr [] \<Rightarrow> True | JArr (x # xs) \<Rightarrow> \<not> truthy x | JObj d \<Rightarrow> d = [] | _ \<Rightarrow> True)"
  by (simp add: selected_def split: json.split list.split)

lemma invalid_not_NotFound: "\<not> is_NotFound cid (InvalidInput cid)"
  by (simp add: is_NotFound_def InvalidInput_def lit_Cons)

lemma NotFound_simps:
  "is_NotFound cid (ValueError (lit ''Container '' @ cid @ lit '' not found''))"
  "is_NotFound cid (ValueError (lit ''Container '' @ cid @ lit '' not found in PNCT system''))"
  "\<not> is_NotFound cid (Exception m)"
  "\<not> is_NotFound cid JSONDecodeError"
  "\<not> is_NotFound cid AttributeError"
  "\<not> is_NotFound cid (OtherError c)"
  by (simp_all add: is_NotFound_def)

lemma extract_not_NotFound:
  "extract_data_by_intent bs now r intent = Inl e \<Longrightarrow> \<not> is_NotFound cid e"
  by (auto simp add: extract_data_by_intent_def is_NotFound_def split: json.splits)

lemma run_three_status_errors:
  assumes valid: "4 \<le> length cid"
    and bad: "\<not> (200 \<le> code \<and> code < 300)"
    and resp: "\<forall>i<3. \<forall>url. http_get w (gets s + i) url = Response code (content i) (body i)"
  shows "PNCTScrapeWorkflow_run w s cid intent
           = Some \<lparr>outcome =
                     (if code = 404
                      then Inl (ValueError (lit ''Container '' @ cid @ lit '' not found''))
                      else Inl (Exception (lit ''API error: ''
                                  @ py_format (builtin_str w) (JInt (int code)) @ lit '' - '' @ content 2))),
                   attempts = 3, waits = [1, 2], final = s\<lparr>gets := gets s + 3\<rparr>\<rparr>"
proof -
  let ?e = "\<lambda>i. if code = 404
                    then ValueError (lit ''Container '' @ cid @ lit '' not found'')
                    else Exception (lit ''API error: ''
                           @ py_format (builtin_str w) (JInt (int code)) @ lit '' - '' @ content i)"
  let ?s = "\<lambda>i. s\<lparr>gets := gets s + i\<rparr>"
  have step: "scrape_pnct_activity w (?s i) cid intent = (Inl (?e i), ?s (i + 1))" if "i < 3" for i
  proof -
    have "http_get w (gets (?s i)) (request_url w (?s i) cid) = Response code (content i) (body i)"
      using resp that by simp
    from scrape_status [OF valid this bad] show ?thesis by simp
  qed
  have s0: "scrape_pnct_activity w s cid intent = (Inl (?e 0), ?s 1)"
    using step [of 0] by simp
  have s1: "scrape_pnct_activity w (?s 1) cid intent = (Inl (?e 1), ?s 2)"
    using step [of 1] by simp
  have s2: "scrape_pnct_activity w (?s 2) cid intent = (Inl (?e 2), ?s 3)"
    using step [of 2] by simp
  show ?thesis
    using run_three_failures [OF s0 s1 s2] by (cases "code = 404") simp_all
qed


section \<open>Availability\<close>

text \<open>
  C1. For intent \<open>availability\<close> and every raw record, the view is produced and its
  \<open>available_for_pickup\<close> field is true if and only if the record's \<open>Available\<close> field
  equals 2 (absent counts as 0) and the hold assessment reports no holds; the assessment
  reports a hold exactly when one of the six hold conditions is triggered.
\<close>

theorem availability_pickup_iff:
  "(\<exists>view. extract_data_by_intent bs now (JObj d) (lit ''availability'') = Inr (JObj view)
      \<and> map_of view (lit ''available_for_pickup'')
          = Some (JBool (eq_int_2 (dict_get_or d (lit ''Available'') (JInt 0))
                         \<and> \<not> fst (has_holds bs d))))
   \<and> (fst (has_holds bs d) \<longleftrightarrow>
         dict_get d (lit ''CarrierReleaseStatus'') = JStr (lit ''HOLD'')
         \<or> dict_get d (lit ''CustomReleaseStatus'') \<noteq> JStr (lit ''RELEASED'')
         \<or> dict_get d (lit ''UsdaStatus'') \<noteq> JStr (lit ''RELEASED'')
         \<or> (truthy (dict_get d (lit ''YardReleaseStatus''))
              \<and> dict_get d (lit ''YardReleaseStatus'') \<noteq> JStr (lit ''RELEASED''))
         \<or> truthy (dict_get d (lit ''MiscHoldStatus''))
         \<or> truthy (dict_get d (lit ''IsTerminalHold'')))"
  using has_holds_iff [of bs d]
  by (simp add: extract_data_by_intent_def extract_dict_availability lit_eq_iff)

theorem availability_pickup_iff_witness:
  "\<exists>view. extract_data_by_intent (\<lambda>v. []) (\<lambda>i. [])
             (JObj [(lit ''Available'', JInt 2),
                    (lit ''CarrierReleaseStatus'', JStr (lit ''RELEASED'')),
                    (lit ''CustomReleaseStatus'', JStr (lit ''RELEASED'')),
                    (lit ''UsdaStatus'', JStr (lit ''RELEASED''))])
             (lit ''availability'') = Inr (JObj view)
      \<and> map_of view (lit ''available'') = Some (JBool True)
      \<and> map_of view (lit ''available_for_pickup'') = Some (JBool True)"
  using availability_pickup_iff
          [of "\<lambda>v. []" "\<lambda>i. []"
              "[(lit ''Available'', JInt 2),
                (lit ''CarrierReleaseStatus'', JStr (lit ''RELEASED'')),
                (lit ''CustomReleaseStatus'', JStr (lit ''RELEASED'')),
                (lit ''UsdaStatus'', JStr (lit ''RELEASED''))]"]
  by (simp add: extract_data_by_intent_def extract_dict_availability dict_get_def dict_get_or_def
        lit_eq_iff)

section \<open>The composite view\<close>

text \<open>
  Under \<open>all\<close> the view has exactly the five keys, and four of the five sub-objects agree
  with the single-intent views up to the timestamp; the \<open>location\<close> sub-object is the
  single-intent view without its \<open>coordinates\<close> entry.
\<close>

lemma all_keys:
  "map fst (extract_dict bs now d (lit ''all'')) =
     [lit ''status'', lit ''location'', lit ''availability'', lit ''holds'', lit ''last_free_day'']"
  by (simp add: extract_dict_all)

lemma all_parts:
  "k \<in> {lit ''status'', lit ''availability'', lit ''holds'', lit ''last_free_day''} \<Longrightarrow>
   map_option without_last_updated (sub_view (extract_dict bs now d (lit ''all'')) k)
     = Some (without_last_updated (extract_dict bs now' d k))"
  by (auto simp add: extract_dict_all sub_view_def lit_eq_iff without_last_updated_def
        extract_dict_status extract_dict_availability extract_dict_holds extract_dict_last_free_day)

lemma all_location:
  "map_option without_last_updated (sub_view (extract_dict bs now d (lit ''all'')) (lit ''location''))
     = Some (filter (\<lambda>kv. fst kv \<noteq> lit ''coordinates'')
               (without_last_updated (extract_dict bs now' d (lit ''location''))))"
  by (simp add: extract_dict_all sub_view_def lit_eq_iff without_last_updated_def
        extract_dict_location)

text \<open>
  C4. The claim asks every sub-object under \<open>all\<close> to equal, apart from \<open>last_updated\<close>,
  the view of the corresponding single intent. For the record
  \<open>{"Block": "A", "Bay": "12"}\<close> the \<open>location\<close> sub-object differs from the \<open>location\<close>
  view: the branch for \<open>all\<close> never attaches \<open>coordinates\<close>.
\<close>

theorem all_location_lacks_coordinates:
  "map_option without_last_updated
     (sub_view (extract_dict bs now
                  [(lit ''Block'', JStr (lit ''A'')), (lit ''Bay'', JStr (lit ''12''))] (lit ''all''))
        (lit ''location''))
   \<noteq> Some (without_last_updated
        (extract_dict bs now
           [(lit ''Block'', JStr (lit ''A'')), (lit ''Bay'', JStr (lit ''12''))] (lit ''location'')))"
  by (simp add: extract_dict_all sub_view_def lit_eq_iff lit_eq_Nil without_last_updated_def
        extract_dict_location dict_get_def dict_get_or_def)

section \<open>Placeholder coordinates\<close>

text \<open>
  C9, as the code has it. For intent \<open>location\<close> the view has a \<open>coordinates\<close> field, equal
  to the constant pair (lat 40.7032, lon -74.1468), exactly when the values of \<open>Block\<close> and
  \<open>Bay\<close> are both true in Python's sense (present and not null, empty, zero or false), and
  has no \<open>coordinates\<close> field otherwise.
\<close>

theorem location_coordinates:
  "map_of (extract_dict bs now d (lit ''location'')) (lit ''coordinates'')
     = (if truthy (dict_get d (lit ''Block'')) \<and> truthy (dict_get d (lit ''Bay''))
        then Some (JObj [(lit ''lat'', JFloat float_40_7032), (lit ''lon'', JFloat float_neg_74_1468)])
        else None)"
  by (simp add: extract_dict_location lit_eq_iff)

text \<open>
  C9 as stated fails: in the record \<open>{"Block": "", "Bay": "12"}\<close> both keys are present,
  yet the view has no \<open>coordinates\<close> field.
\<close>

theorem location_coordinates_counterexample:
  "map_of [(lit ''Block'', JStr []), (lit ''Bay'', JStr (lit ''12''))] (lit ''Block'') \<noteq> None
   \<and> map_of [(lit ''Block'', JStr []), (lit ''Bay'', JStr (lit ''12''))] (lit ''Bay'') \<noteq> None
   \<and> map_of (extract_dict (\<lambda>v. []) (\<lambda>i. [])
               [(lit ''Block'', JStr []), (lit ''Bay'', JStr (lit ''12''))] (lit ''location''))
        (lit ''coordinates'') = None"
  by (simp add: extract_dict_location lit_eq_iff dict_get_def dict_get_or_def)

section \<open>Hold assessment\<close>

text \<open>
  C2, as the code has it. The hold labels are the triggered ones among Carrier, Customs,
  USDA, Yard, Misc, Terminal, always in this order, whichever subset is triggered. For the
  record holding exactly \<open>CustomReleaseStatus="PENDING"\<close> and \<open>IsTerminalHold=true\<close> the
  labels are Customs Hold, USDA Hold, Terminal Hold, because an absent \<open>UsdaStatus\<close> is
  not \<open>"RELEASED"\<close>; with \<open>UsdaStatus="RELEASED"\<close> added they are Customs Hold, Terminal
  Hold.
\<close>

theorem hold_label_order:
  "snd (has_holds bs d) =
     map snd (filter fst
       [(dict_get d (lit ''CarrierReleaseStatus'') = JStr (lit ''HOLD''), lit ''Carrier Hold''),
        (dict_get d (lit ''CustomReleaseStatus'') \<noteq> JStr (lit ''RELEASED''), lit ''Customs Hold''),
        (dict_get d (lit ''UsdaStatus'') \<noteq> JStr (lit ''RELEASED''), lit ''USDA Hold''),
        (truthy (dict_get d (lit ''YardReleaseStatus''))
           \<and> dict_get d (lit ''YardReleaseStatus'') \<noteq> JStr (lit ''RELEASED''), lit ''Yard Hold''),
        (truthy (dict_get d (lit ''MiscHoldStatus'')),
           lit ''Misc Hold: '' @ py_format bs (dict_get d (lit ''MiscHoldStatus''))),
        (truthy (dict_get d (lit ''IsTerminalHold'')), lit ''Terminal Hold'')])
   \<and> has_holds bs [(lit ''CustomReleaseStatus'', JStr (lit ''PENDING'')),
                    (lit ''IsTerminalHold'', JBool True)]
       = (True, [lit ''Customs Hold'', lit ''USDA Hold'', lit ''Terminal Hold''])
   \<and> has_holds bs [(lit ''CustomReleaseStatus'', JStr (lit ''PENDING'')),
                    (lit ''UsdaStatus'', JStr (lit ''RELEASED'')),
                    (lit ''IsTerminalHold'', JBool True)]
       = (True, [lit ''Customs Hold'', lit ''Terminal Hold''])"
proof -
  have "has_holds bs [(lit ''CustomReleaseStatus'', JStr (lit ''PENDING'')),
                    (lit ''IsTerminalHold'', JBool True)]
       = (True, [lit ''Customs Hold'', lit ''USDA Hold'', lit ''Terminal Hold''])"
    by (simp add: has_holds_def dict_get_def dict_get_or_def lit_eq_iff)
  moreover have "has_holds bs [(lit ''CustomReleaseStatus'', JStr (lit ''PENDING'')),
                    (lit ''UsdaStatus'', JStr (lit ''RELEASED'')),
                    (lit ''IsTerminalHold'', JBool True)]
       = (True, [lit ''Customs Hold'', lit ''Terminal Hold''])"
    by (simp add: has_holds_def dict_get_def dict_get_or_def lit_eq_iff)
  ultimately show ?thesis using has_holds_filter [of bs d] by simp
qed

text \<open>
  C2 as stated fails in its example: for the record with exactly
  \<open>CustomReleaseStatus="PENDING"\<close> and \<open>IsTerminalHold=true\<close> the labels are not
  Customs Hold, Terminal Hold.
\<close>

theorem hold_label_example_counterexample:
  "snd (has_holds (\<lambda>v. []) [(lit ''CustomReleaseStatus'', JStr (lit ''PENDING'')),
                    (lit ''IsTerminalHold'', JBool True)])
     \<noteq> [lit ''Customs Hold'', lit ''Terminal Hold'']"
  by (simp add: has_holds_def dict_get_def dict_get_or_def lit_eq_iff)

text \<open>
  C10. A record without \<open>CustomReleaseStatus\<close> has a Customs Hold and a record without
  \<open>UsdaStatus\<close> has a USDA Hold; the empty record has holds, with the labels Customs Hold,
  USDA Hold, and is not available for pickup; a record without \<open>CarrierReleaseStatus\<close> has
  no Carrier Hold, which is reported exactly for the value \<open>"HOLD"\<close>.
\<close>

theorem absent_status_fields:
  "(map_of d (lit ''CustomReleaseStatus'') = None \<longrightarrow> lit ''Customs Hold'' \<in> set (snd (has_holds bs d)))
 \<and> (map_of d (lit ''UsdaStatus'') = None \<longrightarrow> lit ''USDA Hold'' \<in> set (snd (has_holds bs d)))
 \<and> has_holds bs [] = (True, [lit ''Customs Hold'', lit ''USDA Hold''])
 \<and> map_of (extract_dict bs now [] (lit ''availability'')) (lit ''available_for_pickup'') = Some (JBool False)
 \<and> (map_of d (lit ''CarrierReleaseStatus'') = None \<longrightarrow> lit ''Carrier Hold'' \<notin> set (snd (has_holds bs d)))
 \<and> (lit ''Carrier Hold'' \<in> set (snd (has_holds bs d))
      \<longleftrightarrow> map_of d (lit ''CarrierReleaseStatus'') = Some (JStr (lit ''HOLD'')))"
proof -
  have a: "map_of d (lit ''CustomReleaseStatus'') = None \<longrightarrow> lit ''Customs Hold'' \<in> set (snd (has_holds bs d))"
    by (simp add: customs_label_iff dict_get_absent)
  have b: "map_of d (lit ''UsdaStatus'') = None \<longrightarrow> lit ''USDA Hold'' \<in> set (snd (has_holds bs d))"
    by (simp add: usda_label_iff dict_get_absent)
  have c: "map_of (extract_dict bs now [] (lit ''availability'')) (lit ''available_for_pickup'') = Some (JBool False)"
    by (simp add: extract_dict_availability has_holds_empty lit_eq_iff)
  have d: "lit ''Carrier Hold'' \<in> set (snd (has_holds bs d))
      \<longleftrightarrow> map_of d (lit ''CarrierReleaseStatus'') = Some (JStr (lit ''HOLD''))"
    by (simp add: carrier_label_iff dict_get_def dict_get_or_def split: option.split)
  have e: "map_of d (lit ''CarrierReleaseStatus'') = None \<longrightarrow> lit ''Carrier Hold'' \<notin> set (snd (has_holds bs d))"
    by (simp add: d)
  from a b c d e has_holds_empty show ?thesis by blast
qed

theorem absent_status_fields_witness:
  "lit ''Customs Hold'' \<in> set (snd (has_holds (\<lambda>v. []) [(lit ''Available'', JInt 2)]))
 \<and> lit ''USDA Hold'' \<in> set (snd (has_holds (\<lambda>v. []) [(lit ''Available'', JInt 2)]))
 \<and> lit ''Carrier Hold'' \<notin> set (snd (has_holds (\<lambda>v. []) [(lit ''Available'', JInt 2)]))"
  using absent_status_fields [of "[(lit ''Available'', JInt 2)]" "\<lambda>v. []" "\<lambda>i. []"]
  by (simp add: lit_eq_iff)

section \<open>Totality of the projection\<close>

text \<open>
  C6. For every intent, recognised or not, projecting a record does not fail; for the empty
  record the views are the documented defaults: \<open>"Unknown"\<close> for status, location and
  container state, \<open>available\<close> false, \<open>free_days\<close> \<open>"0"\<close>, demurrage amounts \<open>0.0\<close>,
  \<open>carrier_hold\<close> 0, \<open>is_terminal_hold\<close> false, and the raw record under \<open>raw_data\<close> for
  an unrecognised intent.
\<close>

theorem projection_total_empty_defaults:
  "(\<exists>view. extract_data_by_intent bs now (JObj d) intent = Inr (JObj view))
   \<and> extract_data_by_intent bs now (JObj []) (lit ''status'') = Inr (JObj
       [(lit ''status'', JStr (lit ''Unknown'')),
        (lit ''container_state'', JStr (lit ''Unknown'')),
        (lit ''location'', JStr (lit ''Unknown'')),
        (lit ''available'', JBool False),
        (lit ''availability_display_status'', JStr (lit ''Unknown'')),
        (lit ''last_updated'', stamp now 0)])
   \<and> extract_data_by_intent bs now (JObj []) (lit ''location'') = Inr (JObj
       [(lit ''location'', JStr (lit ''Unknown'')),
        (lit ''yard_name'', JNull),
        (lit ''block'', JNull),
        (lit ''bay'', JNull),
        (lit ''position'', JNull),
        (lit ''state'', JStr (lit ''Unknown'')),
        (lit ''container_state'', JStr (lit ''Unknown'')),
        (lit ''last_updated'', stamp now 0)])
   \<and> extract_data_by_intent bs now (JObj []) (lit ''availability'') = Inr (JObj
       [(lit ''available'', JBool False),
        (lit ''availability_display_status'', JStr (lit ''No'')),
        (lit ''available_for_pickup'', JBool False),
        (lit ''order_of_accessibility'', JNull),
        (lit ''last_updated'', stamp now 0)])
   \<and> extract_data_by_intent bs now (JObj []) (lit ''holds'') = Inr (JObj
       [(lit ''has_holds'', JBool True),
        (lit ''hold_types'', JArr [JStr (lit ''Customs Hold''), JStr (lit ''USDA Hold'')]),
        (lit ''carrier_release_status'', JNull),
        (lit ''custom_release_status'', JNull),
        (lit ''usda_status'', JNull),
        (lit ''yard_release_status'', JNull),
        (lit ''misc_hold_status'', JNull),
        (lit ''misc_hold_detail'', JNull),
        (lit ''is_terminal_hold'', JBool False),
        (lit ''carrier_hold'', JInt 0),
        (lit ''last_updated'', stamp now 0)])
   \<and> extract_data_by_intent bs now (JObj []) (lit ''last_free_day'') = Inr (JObj
       [(lit ''last_free_date'', JNull),
        (lit ''line_last_free_date'', JNull),
        (lit ''free_days'', JStr (lit ''0'')),
        (lit ''first_free_date'', JNull),
        (lit ''demurrage_due_flag'', JNull),
        (lit ''demurrage_amount'', JFloat float_0_0),
        (lit ''line_demurrage_amount'', JFloat float_0_0),
        (lit ''is_on_demurrage_warning'', JBool False),
        (lit ''last_updated'', stamp now 0)])
   \<and> extract_data_by_intent bs now (JObj []) (lit ''all'') = Inr (JObj
       [(lit ''status'', JObj
          [(lit ''status'', JStr (lit ''Unknown'')),
           (lit ''container_state'', JStr (lit ''Unknown'')),
           (lit ''location'', JStr (lit ''Unknown'')),
           (lit ''available'', JBool False),
           (lit ''availability_display_status'', JStr (lit ''Unknown'')),
           (lit ''last_updated'', stamp now 0)]),
        (lit ''location'', JObj
          [(lit ''location'', JStr (lit ''Unknown'')),
           (lit ''yard_name'', JNull),
           (lit ''block'', JNull),
           (lit ''bay'', JNull),
           (lit ''position'', JNull),
           (lit ''state'', JStr (lit ''Unknown'')),
           (lit ''container_state'', JStr (lit ''Unknown'')),
           (lit ''last_updated'', stamp now 1)]),
        (lit ''availability'', JObj
          [(lit ''available'', JBool False),
           (lit ''availability_display_status'', JStr (lit ''No'')),
           (lit ''available_for_pickup'', JBool False),
           (lit ''order_of_accessibility'', JNull),
           (lit ''last_updated'', stamp now 2)]),
        (lit ''holds'', JObj
          [(lit ''has_holds'', JBool True),
           (lit ''hold_types'', JArr [JStr (lit ''Customs Hold''), JStr (lit ''USDA Hold'')]),
           (lit ''carrier_release_status'', JNull),
           (lit ''custom_release_status'', JNull),
           (lit ''usda_status'', JNull),
           (lit ''yard_release_status'', JNull),
           (lit ''misc_hold_status'', JNull),
           (lit ''misc_hold_detail'', JNull),
           (lit ''is_terminal_hold'', JBool False),
           (lit ''carrier_hold'', JInt 0),
           (lit ''last_updated'', stamp now 3)]),
        (lit ''last_free_day'', JObj
          [(lit ''last_free_date'', JNull),
           (lit ''line_last_free_date'', JNull),
           (lit ''free_days'', JStr (lit ''0'')),
           (lit ''first_free_date'', JNull),
           (lit ''demurrage_due_flag'', JNull),
           (lit ''demurrage_amount'', JFloat float_0_0),
           (lit ''line_demurrage_amount'', JFloat float_0_0),
           (lit ''is_on_demurrage_warning'', JBool False),
           (lit ''last_updated'', stamp now 4)])])
   \<and> (intent \<notin> {lit ''status'', lit ''location'', lit ''availability'', lit ''holds'',
                  lit ''last_free_day'', lit ''all''} \<longrightarrow>
       extract_data_by_intent bs now (JObj []) intent
         = Inr (JObj [(lit ''raw_data'', JObj []), (lit ''last_updated'', stamp now 0)]))"
  unfolding extract_data_by_intent_def json.case sum.inject json.inject
  using empty_status empty_location empty_availability empty_holds empty_last_free_day empty_all
    extract_dict_other [of intent bs now "[]"]
  by blast

theorem projection_total_empty_defaults_witness:
  "extract_data_by_intent (\<lambda>v. []) (\<lambda>i. []) (JObj []) (lit ''summary'')
         = Inr (JObj [(lit ''raw_data'', JObj []), (lit ''last_updated'', JStr (lit ''Z''))])"
  using projection_total_empty_defaults [of "\<lambda>v. []" "\<lambda>i. []" "[]" "lit ''summary''"]
  by (simp add: lit_eq_iff stamp_def)

section \<open>Input validation\<close>

text \<open>
  C5. For every container id that is empty or shorter than 4 characters and every intent,
  the activity fails with \<open>InvalidInput\<close> and leaves the state as it was: no GET is issued.
\<close>

theorem short_container_id_rejected:
  "container_id = [] \<or> length container_id < 4 \<Longrightarrow>
   scrape_pnct_activity w s container_id intent = (Inl (InvalidInput container_id), s)"
  by (simp add: scrape_pnct_activity_def InvalidInput_def)

theorem short_container_id_rejected_witness:
  "length (lit ''AB1'') < 4
   \<and> scrape_pnct_activity
        \<lparr>http_get = (\<lambda>n url. TransportFailure []), time_ms = (\<lambda>n. 0), utcnow = (\<lambda>n. []),
         builtin_str = (\<lambda>v. [])\<rparr>
        \<lparr>gets = 0, clock_reads = 0\<rparr> (lit ''AB1'') (lit ''status'')
      = (Inl (ValueError (lit ''Invalid container ID format: AB1'')), \<lparr>gets = 0, clock_reads = 0\<rparr>)"
  using short_container_id_rejected
          [of "lit ''AB1''"
              "\<lparr>http_get = (\<lambda>n url. TransportFailure []), time_ms = (\<lambda>n. 0), utcnow = (\<lambda>n. []),
                builtin_str = (\<lambda>v. [])\<rparr>"
              "\<lparr>gets = 0, clock_reads = 0\<rparr>" "lit ''status''"]
  by (simp add: InvalidInput_def lit_def)


section \<open>Not found\<close>

text \<open>
  C8, as the code has it. The activity fails with \<open>NotFound\<close> exactly when the container
  id is valid and the upstream answers 404, or answers with a 2xx status and a JSON body
  that selects no record: an empty array, an empty object, an array whose first element is
  false in Python's sense (null, false, zero, empty), or a body that is neither an array nor
  an object. A non-empty array whose first element is true passes that element to the
  projection as the record, and a non-empty object is used directly.
\<close>

theorem not_found_iff:
  "((\<exists>e. fst (scrape_pnct_activity w s cid intent) = Inl e \<and> is_NotFound cid e)
      \<longleftrightarrow> 4 \<le> length cid \<and>
          (case http_get w (gets s) (request_url w s cid) of
             TransportFailure msg \<Rightarrow> False
           | ClientError cls \<Rightarrow> False
           | Response code content body \<Rightarrow>
               code = 404 \<or>
               (200 \<le> code \<and> code < 300 \<and>
                (case body of
                   None \<Rightarrow> False
                 | Some data \<Rightarrow>
                     (case data of
                        JArr [] \<Rightarrow> True
                      | JArr (x # xs) \<Rightarrow> \<not> truthy x
                      | JObj d \<Rightarrow> d = []
                      | _ \<Rightarrow> True)))))
   \<and> (4 \<le> length cid \<and> 200 \<le> code \<and> code < 300 \<and> truthy x
        \<and> http_get w (gets s) (request_url w s cid) = Response code content (Some (JArr (x # xs)))
      \<longrightarrow> fst (scrape_pnct_activity w s cid intent)
            = (case extract_data_by_intent (builtin_str w) (\<lambda>i. utcnow w (clock_reads s + i)) x intent of
                 Inl e \<Rightarrow> Inl e
               | Inr scraped_data \<Rightarrow>
                   Inr (JObj
                     [(lit ''container_id'', JStr cid),
                      (lit ''intent'', JStr intent),
                      (lit ''data'', scraped_data),
                      (lit ''scraped_at'',
                         JStr (utcnow w (clock_reads s + utcnow_calls intent) @ lit ''Z''))])))
   \<and> (4 \<le> length cid \<and> 200 \<le> code \<and> code < 300 \<and> d \<noteq> []
        \<and> http_get w (gets s) (request_url w s cid) = Response code content (Some (JObj d))
      \<longrightarrow> fst (scrape_pnct_activity w s cid intent)
            = Inr (JObj
                     [(lit ''container_id'', JStr cid),
                      (lit ''intent'', JStr intent),
                      (lit ''data'',
                         JObj (extract_dict (builtin_str w) (\<lambda>i. utcnow w (clock_reads s + i)) d intent)),
                      (lit ''scraped_at'',
                         JStr (utcnow w (clock_reads s + utcnow_calls intent) @ lit ''Z''))]))"
proof (intro conjI impI)
  show "(\<exists>e. fst (scrape_pnct_activity w s cid intent) = Inl e \<and> is_NotFound cid e)
      \<longleftrightarrow> 4 \<le> length cid \<and>
          (case http_get w (gets s) (request_url w s cid) of
             TransportFailure msg \<Rightarrow> False
           | ClientError cls \<Rightarrow> False
           | Response code content body \<Rightarrow>
               code = 404 \<or>
               (200 \<le> code \<and> code < 300 \<and>
                (case body of
                   None \<Rightarrow> False
                 | Some data \<Rightarrow>
                     (case data of
                        JArr [] \<Rightarrow> True
                      | JArr (x # xs) \<Rightarrow> \<not> truthy x
                      | JObj d \<Rightarrow> d = []
                      | _ \<Rightarrow> True))))"
  proof (cases "4 \<le> length cid")
    case False
    then show ?thesis by (simp add: scrape_invalid invalid_not_NotFound)
  next
    case valid: True
    show ?thesis
    proof (cases "http_get w (gets s) (request_url w s cid)")
      case (TransportFailure msg)
      show ?thesis
        by (simp add: scrape_transport [OF valid TransportFailure] TransportFailure NotFound_simps valid)
    next
      case (ClientError cls)
      show ?thesis
        by (simp add: scrape_client_error [OF valid ClientError] ClientError NotFound_simps valid)
    next
      case resp: (Response c t body)
      show ?thesis
      proof (cases "200 \<le> c \<and> c < 300")
        case False
        then show ?thesis
          by (auto simp add: scrape_status [OF valid resp False] resp NotFound_simps valid)
      next
        case ok: True
        then have not404: "c \<noteq> 404" by auto
        show ?thesis
        proof (cases body)
          case None
          with valid resp ok not404 show ?thesis
            by (simp add: scrape_undecodable NotFound_simps)
        next
          case (Some data)
          show ?thesis
          proof (cases "truthy (selected data)")
            case False
            have "fst (scrape_pnct_activity w s cid intent)
                    = Inl (ValueError (lit ''Container '' @ cid @ lit '' not found in PNCT system''))"
              using valid resp ok Some False by (simp add: scrape_falsy)
            moreover have "(case data of JArr [] \<Rightarrow> True | JArr (x # xs) \<Rightarrow> \<not> truthy x
                             | JObj d \<Rightarrow> d = [] | _ \<Rightarrow> True)"
              using False by (simp only: selected_falsy)
            ultimately show ?thesis
              using valid resp ok Some by (simp add: NotFound_simps)
          next
            case True
            have r: "scrape_pnct_activity w s cid intent
               = (case extract_data_by_intent (builtin_str w) (\<lambda>i. utcnow w (clock_reads s + i))
                     (selected data) intent of
                Inl e \<Rightarrow> (Inl e, s\<lparr>gets := gets s + 1\<rparr>)
              | Inr scraped_data \<Rightarrow>
                  (Inr (JObj
                     [(lit ''container_id'', JStr cid),
                      (lit ''intent'', JStr intent),
                      (lit ''data'', scraped_data),
                      (lit ''scraped_at'',
                         JStr (utcnow w (clock_reads s + utcnow_calls intent) @ lit ''Z''))]),
                   s\<lparr>gets := gets s + 1, clock_reads := clock_reads s + utcnow_calls intent + 1\<rparr>))"
              using valid resp ok Some True by (simp add: scrape_record)
            have nf: "\<not> (\<exists>e. fst (scrape_pnct_activity w s cid intent) = Inl e \<and> is_NotFound cid e)"
              unfolding r using extract_not_NotFound [of "builtin_str w" _ "selected data" intent _ cid]
              by (auto split: sum.splits)
            have "\<not> (case data of JArr [] \<Rightarrow> True | JArr (x # xs) \<Rightarrow> \<not> truthy x
                             | JObj d \<Rightarrow> d = [] | _ \<Rightarrow> True)"
              using True selected_falsy [of data] by simp
            with nf show ?thesis
              using valid resp ok Some not404 by simp
          qed
        qed
      qed
    qed
  qed
next
  assume a: "4 \<le> length cid \<and> 200 \<le> code \<and> code < 300 \<and> truthy x
        \<and> http_get w (gets s) (request_url w s cid) = Response code content (Some (JArr (x # xs)))"
  then have "truthy (selected (JArr (x # xs)))" by (simp add: selected_def)
  with a have "scrape_pnct_activity w s cid intent
               = (case extract_data_by_intent (builtin_str w) (\<lambda>i. utcnow w (clock_reads s + i))
                     (selected (JArr (x # xs))) intent of
                Inl e \<Rightarrow> (Inl e, s\<lparr>gets := gets s + 1\<rparr>)
              | Inr scraped_data \<Rightarrow>
                  (Inr (JObj
                     [(lit ''container_id'', JStr cid),
                      (lit ''intent'', JStr intent),
                      (lit ''data'', scraped_data),
                      (lit ''scraped_at'',
                         JStr (utcnow w (clock_reads s + utcnow_calls intent) @ lit ''Z''))]),
                   s\<lparr>gets := gets s + 1, clock_reads := clock_reads s + utcnow_calls intent + 1\<rparr>))"
    by (intro scrape_record) auto
  then show "fst (scrape_pnct_activity w s cid intent)
            = (case extract_data_by_intent (builtin_str w) (\<lambda>i. utcnow w (clock_reads s + i)) x intent of
                 Inl e \<Rightarrow> Inl e
               | Inr scraped_data \<Rightarrow>
                   Inr (JObj
                     [(lit ''container_id'', JStr cid),
                      (lit ''intent'', JStr intent),
                      (lit ''data'', scraped_data),
                      (lit ''scraped_at'',
                         JStr (utcnow w (clock_reads s + utcnow_calls intent) @ lit ''Z''))]))"
    by (simp add: selected_def split: sum.split)
next
  assume a: "4 \<le> length cid \<and> 200 \<le> code \<and> code < 300 \<and> d \<noteq> []
        \<and> http_get w (gets s) (request_url w s cid) = Response code content (Some (JObj d))"
  then have "truthy (selected (JObj d))" by (simp add: selected_def)
  with a have "scrape_pnct_activity w s cid intent
               = (case extract_data_by_intent (builtin_str w) (\<lambda>i. utcnow w (clock_reads s + i))
                     (selected (JObj d)) intent of
                Inl e \<Rightarrow> (Inl e, s\<lparr>gets := gets s + 1\<rparr>)
              | Inr scraped_data \<Rightarrow>
                  (Inr (JObj
                     [(lit ''container_id'', JStr cid),
                      (lit ''intent'', JStr intent),
                      (lit ''data'', scraped_data),
                      (lit ''scraped_at'',
                         JStr (utcnow w (clock_reads s + utcnow_calls intent) @ lit ''Z''))]),
                   s\<lparr>gets := gets s + 1, clock_reads := clock_reads s + utcnow_calls intent + 1\<rparr>))"
    by (intro scrape_record) auto
  then show "fst (scrape_pnct_activity w s cid intent)
            = Inr (JObj
                     [(lit ''container_id'', JStr cid),
                      (lit ''intent'', JStr intent),
                      (lit ''data'',
                         JObj (extract_dict (builtin_str w) (\<lambda>i. utcnow w (clock_reads s + i)) d intent)),
                      (lit ''scraped_at'',
                         JStr (utcnow w (clock_reads s + utcnow_calls intent) @ lit ''Z''))])"
    by (simp add: selected_def extract_data_by_intent_def)
qed


text \<open>
  C8 as stated fails: the body \<open>[{}]\<close> is a non-empty JSON array, so the claim has its first
  element used as the record, and the upstream returned neither 404 nor an empty or null
  body; the activity fails with \<open>NotFound\<close>.
\<close>

theorem not_found_counterexample:
  "fst (scrape_pnct_activity
     \<lparr>http_get = (\<lambda>n url. Response 200 (lit ''[{}]'') (Some (JArr [JObj []]))), time_ms = (\<lambda>n. 0),
      utcnow = (\<lambda>n. []), builtin_str = (\<lambda>v. [])\<rparr>
     \<lparr>gets = 0, clock_reads = 0\<rparr> (lit ''MSCU1234567'') (lit ''status''))
   = Inl (ValueError (lit ''Container MSCU1234567 not found in PNCT system''))"
  by (simp add: scrape_pnct_activity_def fetch_eq selected_def lit_def)

theorem not_found_iff_witness:
  "fst (scrape_pnct_activity
     \<lparr>http_get = (\<lambda>n url. Response 200 []
                    (Some (JArr [JObj [(lit ''State'', JStr (lit ''YARD''))], JNull]))),
      time_ms = (\<lambda>n. 0), utcnow = (\<lambda>n. lit ''T''), builtin_str = (\<lambda>v. [])\<rparr>
     \<lparr>gets = 0, clock_reads = 0\<rparr> (lit ''MSCU1234567'') (lit ''status''))
   = Inr (JObj
       [(lit ''container_id'', JStr (lit ''MSCU1234567'')),
        (lit ''intent'', JStr (lit ''status'')),
        (lit ''data'', JObj
           [(lit ''status'', JStr (lit ''YARD'')),
            (lit ''container_state'', JStr (lit ''Unknown'')),
            (lit ''location'', JStr (lit ''Unknown'')),
            (lit ''available'', JBool False),
            (lit ''availability_display_status'', JStr (lit ''Unknown'')),
            (lit ''last_updated'', JStr (lit ''TZ''))]),
        (lit ''scraped_at'', JStr (lit ''TZ''))])
   \<and> fst (scrape_pnct_activity
     \<lparr>http_get = (\<lambda>n url. Response 200 [] (Some (JObj [(lit ''State'', JStr (lit ''YARD''))]))),
      time_ms = (\<lambda>n. 0), utcnow = (\<lambda>n. lit ''T''), builtin_str = (\<lambda>v. [])\<rparr>
     \<lparr>gets = 0, clock_reads = 0\<rparr> (lit ''MSCU1234567'') (lit ''status''))
   = Inr (JObj
       [(lit ''container_id'', JStr (lit ''MSCU1234567'')),
        (lit ''intent'', JStr (lit ''status'')),
        (lit ''data'', JObj
           [(lit ''status'', JStr (lit ''YARD'')),
            (lit ''container_state'', JStr (lit ''Unknown'')),
            (lit ''location'', JStr (lit ''Unknown'')),
            (lit ''available'', JBool False),
            (lit ''availability_display_status'', JStr (lit ''Unknown'')),
            (lit ''last_updated'', JStr (lit ''TZ''))]),
        (lit ''scraped_at'', JStr (lit ''TZ''))])"
proof -
  have lits: "lit ''T'' @ lit ''Z'' = lit ''TZ''" "4 \<le> length (lit ''MSCU1234567'')"
    by (simp_all add: lit_def)
  show ?thesis
    using
      not_found_iff [where w = "\<lparr>http_get = (\<lambda>n url. Response 200 []
                    (Some (JArr [JObj [(lit ''State'', JStr (lit ''YARD''))], JNull]))),
            time_ms = (\<lambda>n. 0), utcnow = (\<lambda>n. lit ''T''), builtin_str = (\<lambda>v. [])\<rparr>"
        and s = "\<lparr>gets = 0, clock_reads = 0\<rparr>" and cid = "lit ''MSCU1234567''"
        and intent = "lit ''status''" and code = 200 and content = "[]"
        and x = "JObj [(lit ''State'', JStr (lit ''YARD''))]" and xs = "[JNull]"]
      not_found_iff [where w = "\<lparr>http_get = (\<lambda>n url. Response 200 []
                    (Some (JObj [(lit ''State'', JStr (lit ''YARD''))]))),
            time_ms = (\<lambda>n. 0), utcnow = (\<lambda>n. lit ''T''), builtin_str = (\<lambda>v. [])\<rparr>"
        and s = "\<lparr>gets = 0, clock_reads = 0\<rparr>" and cid = "lit ''MSCU1234567''"
        and intent = "lit ''status''" and code = 200 and content = "[]"
        and d = "[(lit ''State'', JStr (lit ''YARD''))]"]
    by (simp add: lits extract_data_by_intent_def extract_dict_status dict_get_or_def lit_eq_iff
          stamp_def utcnow_calls_def)
qed


section \<open>Retries\<close>




text \<open>
  C7. Every execution of the workflow returns after at most 3 attempts of the activity and
  at most 3 GETs; when the first three GETs are answered with 503, the budget is exhausted
  after the third attempt, the failure of the third attempt is surfaced and exactly 3 GETs
  have been issued, so a 4th is never requested.
\<close>

theorem at_most_three_attempts:
  "\<exists>ex. PNCTScrapeWorkflow_run w s cid intent = Some ex
      \<and> attempts ex \<le> 3
      \<and> gets (final ex) \<le> gets s + 3
      \<and> (4 \<le> length cid
           \<and> (\<forall>i<3. \<forall>url. http_get w (gets s + i) url = Response 503 (content i) (body i)) \<longrightarrow>
           ex = \<lparr>outcome = Inl (Exception (lit ''API error: ''
                                   @ py_format (builtin_str w) (JInt 503) @ lit '' - '' @ content 2)),
                 attempts = 3, waits = [1, 2], final = s\<lparr>gets := gets s + 3\<rparr>\<rparr>)"
proof -
  obtain ex where ex: "PNCTScrapeWorkflow_run w s cid intent = Some ex"
    and att: "attempts ex \<le> 3"
    using run_total [of w s cid intent] by blast
  have g: "gets (final ex) \<le> gets s + 3" using run_gets [OF ex] .
  have "4 \<le> length cid
           \<and> (\<forall>i<3. \<forall>url. http_get w (gets s + i) url = Response 503 (content i) (body i)) \<longrightarrow>
           ex = \<lparr>outcome = Inl (Exception (lit ''API error: ''
                                   @ py_format (builtin_str w) (JInt 503) @ lit '' - '' @ content 2)),
                 attempts = 3, waits = [1, 2], final = s\<lparr>gets := gets s + 3\<rparr>\<rparr>"
    using ex run_three_status_errors [of cid 503 w s "content" "body" intent] by auto
  with ex att g show ?thesis by blast
qed


theorem at_most_three_attempts_witness:
  "PNCTScrapeWorkflow_run
     \<lparr>http_get = (\<lambda>n url. Response 503 (lit ''busy'') None), time_ms = (\<lambda>n. 0),
      utcnow = (\<lambda>n. []), builtin_str = (\<lambda>v. if v = JInt 503 then lit ''503'' else [])\<rparr>
     \<lparr>gets = 0, clock_reads = 0\<rparr> (lit ''MSCU1234567'') (lit ''status'')
   = Some \<lparr>outcome = Inl (Exception (lit ''API error: 503 - busy'')), attempts = 3,
           waits = [1, 2], final = \<lparr>gets = 3, clock_reads = 0\<rparr>\<rparr>"
  using at_most_three_attempts [where w = "\<lparr>http_get = (\<lambda>n url. Response 503 (lit ''busy'') None), time_ms = (\<lambda>n. 0),
      utcnow = (\<lambda>n. []), builtin_str = (\<lambda>v. if v = JInt 503 then lit ''503'' else [])\<rparr>"
    and s = "\<lparr>gets = 0, clock_reads = 0\<rparr>" and cid = "lit ''MSCU1234567''"
    and intent = "lit ''status''" and content = "\<lambda>i. lit ''busy''" and body = "\<lambda>i. None"]
  by (auto simp add: lit_def py_format_def)

end
